theory Spec2Isabelle
  imports Complex_Main
begin

section \<open>Data model of the arcade physics bodies\<close>

text \<open>
  JavaScript numbers are modelled as \<^typ>\<open>real\<close>: the bodies are assumed to hold finite,
  non-NaN values, and rounding is not modelled. An argument that the source passes as
  \<^verbatim>\<open>undefined\<close> in a boolean position is \<^term>\<open>False\<close>; an argument that may be
  \<^verbatim>\<open>null\<close> is an \<^typ>\<open>'a option\<close>.
\<close>

record vec =
  x :: real
  y :: real

text \<open>A "sided" struct (Axis.js, typedef Sided) and its boolean subtype with \<^verbatim>\<open>none\<close>.\<close>

record 'a sided =
  up :: 'a
  right :: 'a
  down :: 'a
  left :: 'a

record edges = "bool sided" +
  none :: bool

datatype physicsType = DYNAMIC_BODY | STATIC_BODY

record body =
  position :: vec
  prev :: vec
  velocity :: vec
  bounce :: vec
  friction :: vec
  overlapV :: vec
  center :: vec
  width :: real
  height :: real
  mass :: real
  pushable :: bool
  immovable :: bool
  moves :: bool
  embedded :: bool
  physicsType :: physicsType
  checkCollision :: edges
  touching :: edges
  blocked :: edges
  customSeparateX :: bool
  customSeparateY :: bool

text \<open>
  Modelled from the spec: the Body class is not part of the sources. Its rectangle extents
  are "derived from position+size": the left and upper sides are the position, the right
  and lower sides are the position plus the size (GetOverlapX.js reads them this way:
  \<^verbatim>\<open>body1.x - body2.width - body2.x\<close>).
\<close>

definition extents :: "body \<Rightarrow> real sided" where
  "extents b =
     \<lparr> up = y (position b),
       right = x (position b) + width b,
       down = y (position b) + height b,
       left = x (position b) \<rparr>"

text \<open>
  Modelled from the spec: \<^verbatim>\<open>body.updateCenter()\<close> "recomputes its derived
  center/bounds": the centre is the position plus half the size.
\<close>

definition updateCenter :: "body \<Rightarrow> body" where
  "updateCenter b =
     b\<lparr>center := \<lparr> x = x (position b) + width b / 2, y = y (position b) + height b / 2 \<rparr>\<rparr>"

section \<open>Axis.js: the axis projectors\<close>

datatype axis = X | Y

fun other :: "axis \<Rightarrow> axis" where
  "other X = Y"
| "other Y = X"

fun get :: "axis \<Rightarrow> vec \<Rightarrow> real" where
  "get X v = x v"
| "get Y v = y v"

fun set_axis :: "axis \<Rightarrow> vec \<Rightarrow> real \<Rightarrow> vec" where
  "set_axis X v val = v\<lparr>x := val\<rparr>"
| "set_axis Y v val = v\<lparr>y := val\<rparr>"

fun lu :: "axis \<Rightarrow> ('a, 'b) sided_scheme \<Rightarrow> 'a" where
  "lu X v = left v"
| "lu Y v = up v"

fun rd :: "axis \<Rightarrow> ('a, 'b) sided_scheme \<Rightarrow> 'a" where
  "rd X v = right v"
| "rd Y v = down v"

text \<open>
  \<^verbatim>\<open>rd\<close> applied to a boolean primitive (\<^verbatim>\<open>axis.rd(body1.blocked.right)\<close> in
  BlockCheck): \<^verbatim>\<open>true.right\<close> and \<^verbatim>\<open>false.down\<close> are \<^verbatim>\<open>undefined\<close>,
  which is falsy.
\<close>

fun rd_of_boolean :: "axis \<Rightarrow> bool \<Rightarrow> bool" where
  "rd_of_boolean X v = False"
| "rd_of_boolean Y v = False"

text \<open>Both axis classes carry the same body of \<^verbatim>\<open>setEdges\<close>.\<close>

fun setEdges :: "axis \<Rightarrow> edges \<Rightarrow> bool \<Rightarrow> bool \<Rightarrow> edges" where
  "setEdges X v l r =
     (let v1 = v\<lparr>up := l \<or> up v\<rparr>;
          v2 = v1\<lparr>down := r \<or> down v1\<rparr>
      in v2\<lparr>none := none v2 \<and> \<not> up v2 \<and> \<not> down v2\<rparr>)"
| "setEdges Y v l r =
     (let v1 = v\<lparr>up := l \<or> up v\<rparr>;
          v2 = v1\<lparr>down := r \<or> down v1\<rparr>
      in v2\<lparr>none := none v2 \<and> \<not> up v2 \<and> \<not> down v2\<rparr>)"

fun getCustomSeparate :: "axis \<Rightarrow> body \<Rightarrow> bool" where
  "getCustomSeparate X v = customSeparateX v"
| "getCustomSeparate Y v = customSeparateY v"

definition inc :: "axis \<Rightarrow> vec \<Rightarrow> real \<Rightarrow> vec" where
  "inc ax v val = set_axis ax v (get ax v + val)"

definition delta :: "axis \<Rightarrow> vec \<Rightarrow> vec \<Rightarrow> real" where
  "delta ax v1 v2 = get ax v1 - get ax v2"

definition inOrder :: "axis \<Rightarrow> body \<Rightarrow> body \<Rightarrow> bool" where
  "inOrder ax a b =
     (\<bar>rd ax (extents a) - lu ax (extents b)\<bar> \<le> \<bar>rd ax (extents b) - lu ax (extents a)\<bar>)"

definition displaceTo :: "axis \<Rightarrow> body \<Rightarrow> real option \<Rightarrow> real option \<Rightarrow> bool \<Rightarrow> bool \<Rightarrow> body" where
  "displaceTo ax b offset v blockLu blockRd =
     (let b1 = (case offset of
                  None \<Rightarrow> b
                | Some off \<Rightarrow> updateCenter (b\<lparr>position := inc ax (position b) off\<rparr>));
          b2 = (case v of
                  None \<Rightarrow> b1
                | Some val \<Rightarrow> b1\<lparr>velocity := set_axis ax (velocity b1) val\<rparr>)
      in if blockLu \<or> blockRd
         then b2\<lparr>blocked := setEdges ax (blocked b2) blockLu blockRd\<rparr>
         else b2)"

section \<open>GetOverlap.js\<close>

text \<open>
  The part of \<^verbatim>\<open>GetOverlap\<close> after \<^verbatim>\<open>minBody\<close> and \<^verbatim>\<open>maxBody\<close> have been
  chosen; it returns the overlap and the two bodies in the order (minBody, maxBody).
\<close>

definition overlapMinMax ::
  "axis \<Rightarrow> body \<Rightarrow> body \<Rightarrow> bool \<Rightarrow> real \<Rightarrow> real \<times> body \<times> body" where
  "overlapMinMax ax minBody maxBody overlapOnly maxOverlap =
     (let overlap = rd ax (extents minBody) - lu ax (extents maxBody)
      in if (overlap > maxOverlap \<and> \<not> overlapOnly)
            \<or> rd ax (checkCollision minBody) = False
            \<or> lu ax (checkCollision maxBody) = False
         then (0,
               minBody\<lparr>overlapV := set_axis ax (overlapV minBody) 0\<rparr>,
               maxBody\<lparr>overlapV := set_axis ax (overlapV maxBody) 0\<rparr>)
         else
           (let min1 = minBody\<lparr>touching := setEdges ax (touching minBody) False True\<rparr>;
                max1 = maxBody\<lparr>touching := setEdges ax (touching maxBody) True False\<rparr>;
                min2 = (if physicsType maxBody = STATIC_BODY \<and> \<not> overlapOnly
                        then min1\<lparr>blocked := setEdges ax (blocked min1) False True\<rparr>
                        else min1);
                max2 = (if physicsType minBody = STATIC_BODY \<and> \<not> overlapOnly
                        then max1\<lparr>blocked := setEdges ax (blocked max1) True False\<rparr>
                        else max1)
            in (overlap,
                min2\<lparr>overlapV := set_axis ax (overlapV min2) overlap\<rparr>,
                max2\<lparr>overlapV := set_axis ax (overlapV max2) overlap\<rparr>)))"

definition GetOverlap ::
  "axis \<Rightarrow> body \<Rightarrow> body \<Rightarrow> bool \<Rightarrow> real \<Rightarrow> real \<times> body \<times> body" where
  "GetOverlap ax body1 body2 overlapOnly bias =
     (let d1 = get ax (position body1) - get ax (prev body1);
          d2 = get ax (position body2) - get ax (prev body2);
          maxOverlap = \<bar>d1\<bar> + \<bar>d2\<bar> + bias
      in if d1 = d2
         then (0,
               body1\<lparr>embedded := True, overlapV := set_axis ax (overlapV body1) 0\<rparr>,
               body2\<lparr>embedded := True, overlapV := set_axis ax (overlapV body2) 0\<rparr>)
         else if d1 < d2
         then (case overlapMinMax ax body2 body1 overlapOnly maxOverlap of
                 (overlap, minBody, maxBody) \<Rightarrow> (overlap, maxBody, minBody))
         else (case overlapMinMax ax body1 body2 overlapOnly maxOverlap of
                 (overlap, minBody, maxBody) \<Rightarrow> (overlap, minBody, maxBody)))"

section \<open>Process.js: the collision resolution process\<close>

text \<open>
  The module-level variables of Process.js, as a record threaded through its functions.
  \<^verbatim>\<open>body1\<close> and \<^verbatim>\<open>body2\<close> are references in the source: every mutation
  made through them is a mutation of the caller's bodies, so the caller reads the bodies
  back from the record. The two mass-impact variables are \<^verbatim>\<open>undefined\<close> until
  \<^verbatim>\<open>Check\<close> assigns them, hence optional.
\<close>

record proc =
  axis :: axis
  body1 :: body
  body2 :: body
  body1Pushable :: bool
  body2Pushable :: bool
  body1MassImpact :: "real option"
  body2MassImpact :: "real option"
  body1FullImpact :: real
  body2FullImpact :: real
  body1MovingLeft :: bool
  body1MovingRight :: bool
  body1Stationary :: bool
  body2MovingLeft :: bool
  body2MovingRight :: bool
  body2Stationary :: bool
  body1OnLeft :: bool
  body2OnLeft :: bool
  overlap :: real

datatype 'a outcome = Returned 'a | Thrown string

definition BlockCheck :: "proc \<Rightarrow> nat \<times> proc" where
  "BlockCheck p =
     (if body1MovingRight p \<and> body1OnLeft p \<and> rd (axis p) (blocked (body2 p))
      then (1, p\<lparr>body1 := displaceTo (axis p) (body1 p) (Some (- overlap p))
                             (Some (body1FullImpact p)) False True\<rparr>)
      else if body1MovingLeft p \<and> body2OnLeft p \<and> lu (axis p) (blocked (body2 p))
      then (1, p\<lparr>body1 := displaceTo (axis p) (body1 p) (Some (overlap p))
                             (Some (body1FullImpact p)) True False\<rparr>)
      else if body2MovingRight p \<and> body2OnLeft p
              \<and> rd_of_boolean (axis p) (right (blocked (body1 p)))
      then (2, p\<lparr>body2 := displaceTo (axis p) (body2 p) (Some (- overlap p))
                             (Some (body2FullImpact p)) False True\<rparr>)
      else if body2MovingLeft p \<and> body1OnLeft p \<and> left (blocked (body1 p))
      then (2, p\<lparr>body2 := displaceTo (axis p) (body2 p) (Some (overlap p))
                             (Some (body2FullImpact p)) True False\<rparr>)
      else (0, p))"

text \<open>
  The assignments of \<^verbatim>\<open>Set\<close>: every module variable except the two mass impacts,
  which keep the value they had (\<open>p0\<close> is the module state before the call).
\<close>

definition Set_assign :: "proc \<Rightarrow> axis \<Rightarrow> body \<Rightarrow> body \<Rightarrow> real \<Rightarrow> proc" where
  "Set_assign p0 ax b1 b2 ov =
     (let v1 = get ax (velocity b1);
          v2 = get ax (velocity b2);
          d1 = delta ax (position b1) (prev b1);
          d2 = delta ax (position b2) (prev b2);
          onLeft = inOrder ax b1 b2
      in p0\<lparr> axis := ax, body1 := b1, body2 := b2,
              body1Pushable := pushable b1,
              body1MovingLeft := d1 < 0,
              body1MovingRight := d1 > 0,
              body1Stationary := (d1 = 0),
              body1OnLeft := onLeft,
              body1FullImpact := v2 - v1 * get ax (bounce b1),
              body2Pushable := pushable b2,
              body2MovingLeft := d2 < 0,
              body2MovingRight := d2 > 0,
              body2Stationary := (d2 = 0),
              body2OnLeft := (\<not> onLeft),
              body2FullImpact := v1 - v2 * get ax (bounce b2),
              overlap := \<bar>ov\<bar> \<rparr>)"

definition Set :: "proc \<Rightarrow> axis \<Rightarrow> body \<Rightarrow> body \<Rightarrow> real \<Rightarrow> nat \<times> proc" where
  "Set p0 ax b1 b2 ov = BlockCheck (Set_assign p0 ax b1 b2 ov)"

text \<open>
  The shares and impact velocities that \<^verbatim>\<open>Run\<close> gathers before its switch:
  (body1OverlapShare, body2OverlapShare, body1Impact, body2Impact). An impact of
  \<^term>\<open>None\<close> is the source's \<^verbatim>\<open>null\<close>.
\<close>

definition gather :: "proc \<Rightarrow> real \<times> real \<times> real option \<times> real option" where
  "gather p =
     (if body1Pushable p \<and> body2Pushable p then
        (let totalMass = mass (body1 p) + mass (body2 p);
             body1OverlapShare = mass (body2 p) / totalMass;
             body2OverlapShare = 1 - body1OverlapShare
         in (body1OverlapShare, body2OverlapShare, body1MassImpact p, body2MassImpact p))
      else if body1Pushable p then (1, 0, Some (body1FullImpact p), None)
      else if body2Pushable p then (0, 1, None, Some (body2FullImpact p))
      else if \<not> body1Stationary p \<and> \<not> body2Stationary p then
        (let v1 = get (axis p) (velocity (body1 p));
             v2 = get (axis p) (velocity (body2 p));
             totalMass = mass (body1 p) + mass (body2 p);
             body1OverlapShare = mass (body2 p) / totalMass;
             body2OverlapShare = 1 - body1OverlapShare
         in if body1MovingLeft p \<and> body2MovingLeft p then
              (body1OverlapShare, body2OverlapShare,
               (if body1OnLeft p then Some (min v1 v2) else None),
               (if body2OnLeft p then Some (min v1 v2) else None))
            else if body1MovingRight p \<and> body2MovingRight p then
              (body1OverlapShare, body2OverlapShare,
               (if body1OnLeft p then None else Some (max v1 v2)),
               (if body2OnLeft p then None else Some (max v1 v2)))
            else (body1OverlapShare, body2OverlapShare, Some 0, Some 0))
      else if body1Stationary p then (0, 0, None, Some 0)
      else if body2Stationary p then (0, 0, Some 0, None)
      else (0, 0, None, None))"

definition Run :: "nat \<Rightarrow> proc \<Rightarrow> bool outcome \<times> proc" where
  "Run side p =
     (case gather p of
        (body1OverlapShare, body2OverlapShare, body1Impact, body2Impact) \<Rightarrow>
          if side = 0 \<or> side = 3 then
            (let p1 = p\<lparr>body1 := displaceTo (axis p) (body1 p)
                                    (Some (overlap p * body1OverlapShare)) body1Impact
                                    (\<not> body2Pushable p) False\<rparr>;
                 p2 = p1\<lparr>body2 := displaceTo (axis p1) (body2 p1)
                                     (Some (- overlap p1 * body1OverlapShare)) body2Impact
                                     False (\<not> body1Pushable p1)\<rparr>
             in (Returned True, p2))
          else if side = 1 \<or> side = 2 then
            (let p1 = p\<lparr>body1 := displaceTo (axis p) (body1 p)
                                    (Some (- overlap p * body1OverlapShare)) body1Impact
                                    False (\<not> body2Pushable p)\<rparr>;
                 p2 = p1\<lparr>body2 := displaceTo (axis p1) (body2 p1)
                                     (Some (overlap p1 * body1OverlapShare)) body2Impact
                                     (\<not> body1Pushable p1) False\<rparr>
             in (Returned True, p2))
          else (Thrown ''what side?'', p))"

text \<open>The first half of \<^verbatim>\<open>Check\<close>: the two mass-impact velocities.\<close>

definition Check_assign :: "proc \<Rightarrow> proc" where
  "Check_assign p0 =
     (let v1 = get (axis p0) (velocity (body1 p0));
          v2 = get (axis p0) (velocity (body2 p0));
          vRel = v1 - v2;
          m1 = mass (body1 p0);
          m2 = mass (body2 p0);
          mTotal = m1 + m2;
          centerOfMassVelocity = (m1 * v1 + m2 * v2) / (m1 + m2)
      in p0\<lparr> body1MassImpact :=
                Some (centerOfMassVelocity - get (axis p0) (bounce (body1 p0)) * m2 * vRel / mTotal),
              body2MassImpact :=
                Some (centerOfMassVelocity + get (axis p0) (bounce (body2 p0)) * m1 * vRel / mTotal) \<rparr>)"

definition Check :: "proc \<Rightarrow> bool outcome \<times> proc" where
  "Check p0 =
     (let p = Check_assign p0
      in if body1MovingLeft p \<and> body2OnLeft p then Run 0 p
         else if body2MovingLeft p \<and> body1OnLeft p then Run 1 p
         else if body1MovingRight p \<and> body1OnLeft p then Run 2 p
         else if body2MovingRight p \<and> body2OnLeft p then Run 3 p
         else (Returned False, p))"

definition RunImmovableBody1 :: "nat \<Rightarrow> proc \<Rightarrow> proc" where
  "RunImmovableBody1 blockedState p =
     (let ax = axis p;
          p1 = (if blockedState = 1
                then p\<lparr>body2 := (body2 p)\<lparr>velocity := set_axis ax (velocity (body2 p)) 0\<rparr>\<rparr>
                else if body1OnLeft p
                then p\<lparr>body2 := displaceTo ax (body2 p) (Some (overlap p))
                                    (Some (body2FullImpact p)) True False\<rparr>
                else p\<lparr>body2 := displaceTo ax (body2 p) (Some (- overlap p))
                                    (Some (body2FullImpact p)) False True\<rparr>)
      in if moves (body1 p1)
         then (let body1Delta = get (other ax) (position (body1 p1)) - get (other ax) (prev (body1 p1));
                   body1Friction = get (other ax) (friction (body1 p1));
                   newOther = get (other ax) (position (body2 p1)) + body1Friction * body1Delta
               in p1\<lparr>body2 := (body2 p1)\<lparr>position := set_axis (other ax) (position (body2 p1)) newOther\<rparr>\<rparr>)
         else p1)"

text \<open>
  In the first branch the source calls \<^verbatim>\<open>axis.get(body1.velocity, 0)\<close>: a read whose
  second argument is ignored and whose result is dropped, so the state is unchanged.
\<close>

definition RunImmovableBody2 :: "nat \<Rightarrow> proc \<Rightarrow> proc" where
  "RunImmovableBody2 blockedState p =
     (let ax = axis p;
          p1 = (if blockedState = 2
                then (let unused = get ax (velocity (body1 p)) in p)
                else if body2OnLeft p
                then p\<lparr>body1 := displaceTo ax (body1 p) (Some (overlap p))
                                    (Some (body1FullImpact p)) True False\<rparr>
                else p\<lparr>body1 := displaceTo ax (body1 p) (Some (- overlap p))
                                    (Some (body1FullImpact p)) False True\<rparr>)
      in if moves (body2 p1)
         then (let body2Delta = get (other ax) (position (body2 p1)) - get (other ax) (prev (body2 p1));
                   body2Friction = get (other ax) (friction (body2 p1));
                   newOther = get (other ax) (position (body1 p1)) + body2Friction * body2Delta
               in p1\<lparr>body1 := (body1 p1)\<lparr>position := set_axis (other ax) (position (body1 p1)) newOther\<rparr>\<rparr>)
         else p1)"

section \<open>Separate.js\<close>

text \<open>
  \<^verbatim>\<open>Separate\<close> returns its result together with the two bodies and the module state
  of Process.js as the call leaves them.
\<close>

definition Separate ::
  "proc \<Rightarrow> axis \<Rightarrow> body \<Rightarrow> body \<Rightarrow> bool \<Rightarrow> real \<Rightarrow> bool outcome \<times> body \<times> body \<times> proc" where
  "Separate p0 ax b1 b2 overlapOnly bias =
     (case GetOverlap ax b1 b2 overlapOnly bias of
        (ov, body1', body2') \<Rightarrow>
          (let body1Immovable = immovable body1';
               body2Immovable = immovable body2'
           in if overlapOnly
                 \<or> ov = 0
                 \<or> (body1Immovable \<and> body2Immovable)
                 \<or> getCustomSeparate ax body1'
                 \<or> getCustomSeparate ax body2'
              then (Returned ((ov \<noteq> 0) \<or> (embedded body1' \<and> embedded body2')), body1', body2', p0)
              else
                (case Set p0 ax body1' body2' ov of
                   (blockedState, p) \<Rightarrow>
                     if \<not> body1Immovable \<and> \<not> body2Immovable then
                       (if blockedState > 0
                        then (Returned True, body1 p, body2 p, p)
                        else (case Check p of (r, p') \<Rightarrow> (r, body1 p', body2 p', p')))
                     else if body1Immovable then
                       (let p' = RunImmovableBody1 blockedState p
                        in (Returned True, body1 p', body2 p', p'))
                     else if body2Immovable then
                       (let p' = RunImmovableBody2 blockedState p
                        in (Returned True, body1 p', body2 p', p'))
                     else (Returned True, body1 p, body2 p, p))))"

section \<open>Concrete bodies used by the closed theorems\<close>

text \<open>
  A 10 by 10 dynamic body at the origin, at rest, of unit mass, pushable, colliding on
  every side, with no edge flag set.
\<close>

definition noEdges :: edges where
  "noEdges = \<lparr> up = False, right = False, down = False, left = False, none = True \<rparr>"

definition allSides :: edges where
  "allSides = \<lparr> up = True, right = True, down = True, left = True, none = False \<rparr>"

definition restBody :: body where
  "restBody =
     \<lparr> position = \<lparr> x = 0, y = 0 \<rparr>,
       prev = \<lparr> x = 0, y = 0 \<rparr>,
       velocity = \<lparr> x = 0, y = 0 \<rparr>,
       bounce = \<lparr> x = 0, y = 0 \<rparr>,
       friction = \<lparr> x = 1, y = 0 \<rparr>,
       overlapV = \<lparr> x = 0, y = 0 \<rparr>,
       center = \<lparr> x = 5, y = 5 \<rparr>,
       width = 10,
       height = 10,
       mass = 1,
       pushable = True,
       immovable = False,
       moves = True,
       embedded = False,
       physicsType = DYNAMIC_BODY,
       checkCollision = allSides,
       touching = noEdges,
       blocked = noEdges,
       customSeparateX = False,
       customSeparateY = False \<rparr>"

text \<open>The same body placed at \<open>px\<close> on the X axis, having come from \<open>qx\<close> with velocity \<open>vx\<close>.\<close>

definition bodyAt :: "real \<Rightarrow> real \<Rightarrow> real \<Rightarrow> body" where
  "bodyAt px qx vx =
     restBody\<lparr> position := \<lparr> x = px, y = 0 \<rparr>,
               prev := \<lparr> x = qx, y = 0 \<rparr>,
               velocity := \<lparr> x = vx, y = 0 \<rparr>,
               center := \<lparr> x = px + 5, y = 5 \<rparr> \<rparr>"

text \<open>A state of the Process.js module variables left by some earlier resolution.\<close>

definition idleProc :: proc where
  "idleProc =
     \<lparr> axis = X, body1 = restBody, body2 = restBody,
       body1Pushable = True, body2Pushable = True,
       body1MassImpact = None, body2MassImpact = None,
       body1FullImpact = 0, body2FullImpact = 0,
       body1MovingLeft = False, body1MovingRight = False, body1Stationary = True,
       body2MovingLeft = False, body2MovingRight = False, body2Stationary = True,
       body1OnLeft = True, body2OnLeft = False,
       overlap = 0 \<rparr>"

text \<open>
  The module state with which \<^verbatim>\<open>Separate\<close> enters \<^verbatim>\<open>BlockCheck\<close> for a pair:
  the bodies as \<^verbatim>\<open>GetOverlap\<close> left them, and the values \<^verbatim>\<open>Set\<close> derives.
\<close>

definition resolutionState :: "proc \<Rightarrow> axis \<Rightarrow> body \<Rightarrow> body \<Rightarrow> bool \<Rightarrow> real \<Rightarrow> proc" where
  "resolutionState p0 ax b1 b2 overlapOnly bias =
     (case GetOverlap ax b1 b2 overlapOnly bias of
        (ov, c1, c2) \<Rightarrow> Set_assign p0 ax c1 c2 ov)"

text \<open>A body spanning 0..10 that moved right by 5 into a resting body spanning 6..16.\<close>

definition mover :: body where
  "mover = bodyAt 0 (-5) 5"

definition target :: body where
  "target = bodyAt 6 6 0"

text \<open>An edge struct with only the given X side set.\<close>

definition rightEdge :: edges where
  "rightEdge = \<lparr> up = False, right = True, down = False, left = False, none = False \<rparr>"

definition leftEdge :: edges where
  "leftEdge = \<lparr> up = False, right = False, down = False, left = True, none = False \<rparr>"

section \<open>Helper facts\<close>

lemmas example_defs = bodyAt_def restBody_def noEdges_def allSides_def idleProc_def
  mover_def target_def rightEdge_def leftEdge_def

lemma get_set_axis: "get ax (set_axis ax v val) = val"
  by (cases ax) simp_all

lemma displaceTo_position:
  "position (displaceTo ax b (Some off) v l r) = inc ax (position b) off"
  by (simp add: displaceTo_def updateCenter_def Let_def split: option.split)

lemma displaceTo_velocity_Some:
  "velocity (displaceTo ax b off (Some val) l r) = set_axis ax (velocity b) val"
  by (simp add: displaceTo_def updateCenter_def Let_def split: option.split)

lemma displaceTo_velocity_None:
  "velocity (displaceTo ax b off None l r) = velocity b"
  by (simp add: displaceTo_def updateCenter_def Let_def split: option.split)

lemma GetOverlap_frame:
  assumes "GetOverlap ax b1 b2 overlapOnly bias = (ov, c1, c2)"
  shows "position c1 = position b1 \<and> velocity c1 = velocity b1 \<and> immovable c1 = immovable b1
       \<and> position c2 = position b2 \<and> velocity c2 = velocity b2 \<and> immovable c2 = immovable b2"
  using assms
  by (auto simp add: GetOverlap_def overlapMinMax_def Let_def split: if_splits)

lemma BlockCheck_body1:
  "fst (BlockCheck p) \<noteq> 1 \<Longrightarrow> body1 (snd (BlockCheck p)) = body1 p"
  by (auto simp add: BlockCheck_def split: if_splits)

lemma Set_assign_bodies:
  "body1 (Set_assign p0 ax b1 b2 ov) = b1 \<and> body2 (Set_assign p0 ax b1 b2 ov) = b2"
  by (simp add: Set_assign_def Let_def)

lemma RunImmovableBody1_body1: "body1 (RunImmovableBody1 s p) = body1 p"
  by (simp add: RunImmovableBody1_def Let_def)

lemma set_axis_get: "set_axis ax v (get ax v) = v"
  by (cases ax) simp_all

lemma get_set_other_axis: "get ax (set_axis (other ax) v val) = get ax v"
  by (cases ax) simp_all

lemma side_cases: "side \<le> (3::nat) \<Longrightarrow> side = 0 \<or> side = 1 \<or> side = 2 \<or> side = 3"
  by arith

lemma Run_only_body2_pushable:
  assumes "\<not> body1Pushable p" and "body2Pushable p" and "side \<le> 3"
  shows "position (body2 (snd (Run side p))) = position (body2 p)
       \<and> velocity (body2 (snd (Run side p)))
           = set_axis (axis p) (velocity (body2 p)) (body2FullImpact p)"
  using assms(1,2) side_cases [OF assms(3)]
  by (auto simp add: Run_def gather_def Let_def displaceTo_position displaceTo_velocity_Some
      displaceTo_velocity_None inc_def set_axis_get)

lemma GetOverlap_custom:
  "getCustomSeparate ax (fst (snd (GetOverlap ax b1 b2 overlapOnly bias))) = getCustomSeparate ax b1
   \<and> getCustomSeparate ax (snd (snd (GetOverlap ax b1 b2 overlapOnly bias))) = getCustomSeparate ax b2"
  by (cases ax) (simp_all add: GetOverlap_def overlapMinMax_def Let_def)

lemma GetOverlap_embedded_unequal:
  assumes "get ax (position b1) - get ax (prev b1) \<noteq> get ax (position b2) - get ax (prev b2)"
  shows "embedded (fst (snd (GetOverlap ax b1 b2 overlapOnly bias))) = embedded b1
       \<and> embedded (snd (snd (GetOverlap ax b1 b2 overlapOnly bias))) = embedded b2"
  using assms by (simp add: GetOverlap_def overlapMinMax_def Let_def)

lemma BlockCheck_body2:
  "fst (BlockCheck p) \<noteq> 2 \<Longrightarrow> body2 (snd (BlockCheck p)) = body2 p"
  by (auto simp add: BlockCheck_def split: if_splits)

lemma RunImmovableBody2_body2: "body2 (RunImmovableBody2 s p) = body2 p"
  by (simp add: RunImmovableBody2_def Let_def)

lemma Separate_early:
  assumes "overlapOnly \<or> fst (GetOverlap ax b1 b2 overlapOnly bias) = 0
           \<or> (immovable b1 \<and> immovable b2)
           \<or> getCustomSeparate ax b1 \<or> getCustomSeparate ax b2"
  shows "Separate p0 ax b1 b2 overlapOnly bias
       = (Returned (fst (GetOverlap ax b1 b2 overlapOnly bias) \<noteq> 0
                    \<or> (embedded (fst (snd (GetOverlap ax b1 b2 overlapOnly bias)))
                       \<and> embedded (snd (snd (GetOverlap ax b1 b2 overlapOnly bias))))),
          fst (snd (GetOverlap ax b1 b2 overlapOnly bias)),
          snd (snd (GetOverlap ax b1 b2 overlapOnly bias)), p0)"
proof -
  obtain ov c1 c2 where g: "GetOverlap ax b1 b2 overlapOnly bias = (ov, c1, c2)"
    by (cases "GetOverlap ax b1 b2 overlapOnly bias")
  from GetOverlap_frame [OF g] GetOverlap_custom [of ax b1 b2 overlapOnly bias] g assms
  show ?thesis
    by (auto simp add: Separate_def Let_def)
qed

lemma Separate_late_body1:
  assumes imm: "immovable b1"
    and late: "\<not> (overlapOnly \<or> fst (GetOverlap ax b1 b2 overlapOnly bias) = 0
           \<or> (immovable b1 \<and> immovable b2)
           \<or> getCustomSeparate ax b1 \<or> getCustomSeparate ax b2)"
    and nb: "fst (BlockCheck (resolutionState p0 ax b1 b2 overlapOnly bias)) \<noteq> 1"
  shows "fst (snd (Separate p0 ax b1 b2 overlapOnly bias))
       = fst (snd (GetOverlap ax b1 b2 overlapOnly bias))"
proof -
  obtain ov c1 c2 where ov: "GetOverlap ax b1 b2 overlapOnly bias = (ov, c1, c2)"
    by (cases "GetOverlap ax b1 b2 overlapOnly bias")
  from GetOverlap_frame [OF ov] imm have fr: "immovable c1"
    by simp
  obtain bs p where sp: "Set p0 ax c1 c2 ov = (bs, p)"
    by (cases "Set p0 ax c1 c2 ov")
  with nb ov have "bs \<noteq> 1" by (simp add: resolutionState_def Set_def)
  from sp have "BlockCheck (Set_assign p0 ax c1 c2 ov) = (bs, p)"
    by (simp add: Set_def)
  with BlockCheck_body1 [of "Set_assign p0 ax c1 c2 ov"] \<open>bs \<noteq> 1\<close>
  have b1p: "body1 p = c1"
    by (simp add: Set_assign_bodies)
  show ?thesis
    using ov sp fr b1p
    by (simp add: Separate_def Let_def RunImmovableBody1_body1)
qed

lemma Separate_late_body2:
  assumes imm: "immovable b2"
    and late: "\<not> (overlapOnly \<or> fst (GetOverlap ax b1 b2 overlapOnly bias) = 0
           \<or> (immovable b1 \<and> immovable b2)
           \<or> getCustomSeparate ax b1 \<or> getCustomSeparate ax b2)"
    and nb: "fst (BlockCheck (resolutionState p0 ax b1 b2 overlapOnly bias)) \<noteq> 2"
  shows "fst (snd (snd (Separate p0 ax b1 b2 overlapOnly bias)))
       = snd (snd (GetOverlap ax b1 b2 overlapOnly bias))"
proof -
  obtain ov c1 c2 where ov: "GetOverlap ax b1 b2 overlapOnly bias = (ov, c1, c2)"
    by (cases "GetOverlap ax b1 b2 overlapOnly bias")
  from GetOverlap_frame [OF ov] imm late have fr: "immovable c2" "\<not> immovable c1"
    by simp_all
  obtain bs p where sp: "Set p0 ax c1 c2 ov = (bs, p)"
    by (cases "Set p0 ax c1 c2 ov")
  with nb ov have "bs \<noteq> 2" by (simp add: resolutionState_def Set_def)
  from sp have "BlockCheck (Set_assign p0 ax c1 c2 ov) = (bs, p)"
    by (simp add: Set_def)
  with BlockCheck_body2 [of "Set_assign p0 ax c1 c2 ov"] \<open>bs \<noteq> 2\<close>
  have b2p: "body2 p = c2"
    by (simp add: Set_assign_bodies)
  show ?thesis
    using ov sp fr b2p
    by (simp add: Separate_def Let_def RunImmovableBody2_body2)
qed

lemma GetOverlap_frame_fst:
  "position (fst (snd (GetOverlap ax b1 b2 overlapOnly bias))) = position b1
   \<and> velocity (fst (snd (GetOverlap ax b1 b2 overlapOnly bias))) = velocity b1
   \<and> position (snd (snd (GetOverlap ax b1 b2 overlapOnly bias))) = position b2
   \<and> velocity (snd (snd (GetOverlap ax b1 b2 overlapOnly bias))) = velocity b2"
  using GetOverlap_frame [of ax b1 b2 overlapOnly bias
      "fst (GetOverlap ax b1 b2 overlapOnly bias)"
      "fst (snd (GetOverlap ax b1 b2 overlapOnly bias))"
      "snd (snd (GetOverlap ax b1 b2 overlapOnly bias))"]
  by simp

section \<open>The overlap calculator\<close>

text \<open>
  C9. After every call to \<^verbatim>\<open>GetOverlap\<close> on an axis, the \<^verbatim>\<open>overlapV\<close>
  components of the two bodies on that axis are both equal to the value returned, hence
  equal to each other in sign and magnitude.
\<close>

theorem GetOverlap_overlapV_symmetric:
  "get ax (overlapV (fst (snd (GetOverlap ax b1 b2 overlapOnly bias))))
     = fst (GetOverlap ax b1 b2 overlapOnly bias)
   \<and> get ax (overlapV (snd (snd (GetOverlap ax b1 b2 overlapOnly bias))))
     = fst (GetOverlap ax b1 b2 overlapOnly bias)"
  by (simp add: GetOverlap_def overlapMinMax_def Let_def get_set_axis)

theorem GetOverlap_overlapV_symmetric_witness:
  "get X (overlapV (fst (snd (GetOverlap X (bodyAt 0 (-5) 5) (bodyAt 6 6 0) False 4)))) = 4
   \<and> get X (overlapV (snd (snd (GetOverlap X (bodyAt 0 (-5) 5) (bodyAt 6 6 0) False 4)))) = 4
   \<and> fst (GetOverlap X (bodyAt 0 (-5) 5) (bodyAt 6 6 0) False 4) = 4"
proof -
  have "fst (GetOverlap X (bodyAt 0 (-5) 5) (bodyAt 6 6 0) False 4) = 4"
    by (simp add: GetOverlap_def overlapMinMax_def Let_def extents_def example_defs)
  with GetOverlap_overlapV_symmetric [of X "bodyAt 0 (-5) 5" "bodyAt 6 6 0" False 4]
  show ?thesis by simp
qed

text \<open>
  C8. When the two bodies moved by the same amount along the axis since their previous
  positions (both at rest included), \<^verbatim>\<open>GetOverlap\<close> returns 0, marks both bodies
  embedded and sets the \<^verbatim>\<open>overlapV\<close> component of both on that axis to zero.
\<close>

theorem GetOverlap_equal_displacement:
  assumes "get ax (position b1) - get ax (prev b1) = get ax (position b2) - get ax (prev b2)"
  shows "fst (GetOverlap ax b1 b2 overlapOnly bias) = 0
    \<and> embedded (fst (snd (GetOverlap ax b1 b2 overlapOnly bias)))
    \<and> embedded (snd (snd (GetOverlap ax b1 b2 overlapOnly bias)))
    \<and> get ax (overlapV (fst (snd (GetOverlap ax b1 b2 overlapOnly bias)))) = 0
    \<and> get ax (overlapV (snd (snd (GetOverlap ax b1 b2 overlapOnly bias)))) = 0"
  using assms by (simp add: GetOverlap_def Let_def get_set_axis)

theorem GetOverlap_equal_displacement_witness:
  "get X (position (bodyAt 0 0 0)) - get X (prev (bodyAt 0 0 0))
     = get X (position (bodyAt 6 6 0)) - get X (prev (bodyAt 6 6 0))
   \<and> fst (GetOverlap X (bodyAt 0 0 0) (bodyAt 6 6 0) False 4) = 0
   \<and> embedded (fst (snd (GetOverlap X (bodyAt 0 0 0) (bodyAt 6 6 0) False 4)))
   \<and> embedded (snd (snd (GetOverlap X (bodyAt 0 0 0) (bodyAt 6 6 0) False 4)))
   \<and> get X (overlapV (fst (snd (GetOverlap X (bodyAt 0 0 0) (bodyAt 6 6 0) False 4)))) = 0
   \<and> get X (overlapV (snd (snd (GetOverlap X (bodyAt 0 0 0) (bodyAt 6 6 0) False 4)))) = 0"
proof -
  have h: "get X (position (bodyAt 0 0 0)) - get X (prev (bodyAt 0 0 0))
     = get X (position (bodyAt 6 6 0)) - get X (prev (bodyAt 6 6 0))"
    by (simp add: example_defs)
  from GetOverlap_equal_displacement [OF h, of False 4] h show ?thesis by simp
qed

text \<open>
  C6, as stated, fails: a body spanning 0..10 that moved right by 1 and a resting body
  spanning 20..30 do not intersect, yet \<^verbatim>\<open>GetOverlap\<close> returns -10 and sets a touching
  flag on each of them. The function has no intersection test of its own.
\<close>

theorem GetOverlap_disjoint_counterexample:
  "rd X (extents (bodyAt 0 (-1) 1)) < lu X (extents (bodyAt 20 20 0))
   \<and> fst (GetOverlap X (bodyAt 0 (-1) 1) (bodyAt 20 20 0) False 4) = - 10
   \<and> touching (fst (snd (GetOverlap X (bodyAt 0 (-1) 1) (bodyAt 20 20 0) False 4)))
       \<noteq> touching (bodyAt 0 (-1) 1)
   \<and> touching (snd (snd (GetOverlap X (bodyAt 0 (-1) 1) (bodyAt 20 20 0) False 4)))
       \<noteq> touching (bodyAt 20 20 0)"
  by (simp add: GetOverlap_def overlapMinMax_def Let_def extents_def example_defs)

text \<open>
  C6, amended. \<^verbatim>\<open>GetOverlap\<close> returns 0 and leaves the touching and blocked structs
  of both bodies unchanged whenever the two displacements are equal, or the measured
  overlap (right/down side of the body with the larger displacement minus left/up side
  of the other) is discarded: it exceeds \<open>|d1| + |d2| + bias\<close> on a call that is not
  overlap-only, or \<^verbatim>\<open>checkCollision\<close> is off on one of the two facing sides. This
  holds for every pair of bodies, intersecting or not.
\<close>

theorem GetOverlap_noop_when_discarded:
  assumes "d1 = get ax (position b1) - get ax (prev b1)"
    and "d2 = get ax (position b2) - get ax (prev b2)"
    and "maxOverlap = \<bar>d1\<bar> + \<bar>d2\<bar> + bias"
    and "d1 = d2
       \<or> (d2 < d1 \<and> ((rd ax (extents b1) - lu ax (extents b2) > maxOverlap \<and> \<not> overlapOnly)
                      \<or> \<not> rd ax (checkCollision b1) \<or> \<not> lu ax (checkCollision b2)))
       \<or> (d1 < d2 \<and> ((rd ax (extents b2) - lu ax (extents b1) > maxOverlap \<and> \<not> overlapOnly)
                      \<or> \<not> rd ax (checkCollision b2) \<or> \<not> lu ax (checkCollision b1)))"
  shows "fst (GetOverlap ax b1 b2 overlapOnly bias) = 0
    \<and> touching (fst (snd (GetOverlap ax b1 b2 overlapOnly bias))) = touching b1
    \<and> blocked (fst (snd (GetOverlap ax b1 b2 overlapOnly bias))) = blocked b1
    \<and> touching (snd (snd (GetOverlap ax b1 b2 overlapOnly bias))) = touching b2
    \<and> blocked (snd (snd (GetOverlap ax b1 b2 overlapOnly bias))) = blocked b2"
proof (cases "d1 = d2")
  case True
  with assms(1,2) show ?thesis by (simp add: GetOverlap_def Let_def)
next
  case False
  note ne = this
  show ?thesis
  proof (cases "d1 < d2")
    case True
    with assms ne show ?thesis
      by (auto simp add: GetOverlap_def overlapMinMax_def Let_def)
  next
    case False
    with ne have "d2 < d1" by simp
    with assms ne show ?thesis
      by (auto simp add: GetOverlap_def overlapMinMax_def Let_def)
  qed
qed

theorem GetOverlap_noop_when_discarded_witness:
  "fst (GetOverlap X (bodyAt 20 19 1) (bodyAt 0 0 0) False 4) = 0
    \<and> touching (fst (snd (GetOverlap X (bodyAt 20 19 1) (bodyAt 0 0 0) False 4))) = touching (bodyAt 20 19 1)
    \<and> blocked (fst (snd (GetOverlap X (bodyAt 20 19 1) (bodyAt 0 0 0) False 4))) = blocked (bodyAt 20 19 1)
    \<and> touching (snd (snd (GetOverlap X (bodyAt 20 19 1) (bodyAt 0 0 0) False 4))) = touching (bodyAt 0 0 0)
    \<and> blocked (snd (snd (GetOverlap X (bodyAt 20 19 1) (bodyAt 0 0 0) False 4))) = blocked (bodyAt 0 0 0)
    \<and> rd X (extents (bodyAt 0 0 0)) < lu X (extents (bodyAt 20 19 1))"
proof -
  have h: "(1::real) = 0
       \<or> ((0::real) < 1 \<and> ((rd X (extents (bodyAt 20 19 1)) - lu X (extents (bodyAt 0 0 0)) > 5 \<and> \<not> False)
                      \<or> \<not> rd X (checkCollision (bodyAt 20 19 1)) \<or> \<not> lu X (checkCollision (bodyAt 0 0 0))))
       \<or> ((1::real) < 0 \<and> ((rd X (extents (bodyAt 0 0 0)) - lu X (extents (bodyAt 20 19 1)) > 5 \<and> \<not> False)
                      \<or> \<not> rd X (checkCollision (bodyAt 0 0 0)) \<or> \<not> lu X (checkCollision (bodyAt 20 19 1))))"
    by (simp add: extents_def example_defs)
  have e: "rd X (extents (bodyAt 0 0 0)) < lu X (extents (bodyAt 20 19 1))"
    by (simp add: extents_def example_defs)
  have d1: "(1::real) = get X (position (bodyAt 20 19 1)) - get X (prev (bodyAt 20 19 1))"
    by (simp add: example_defs)
  have d2: "(0::real) = get X (position (bodyAt 0 0 0)) - get X (prev (bodyAt 0 0 0))"
    by (simp add: example_defs)
  have m: "(5::real) = \<bar>1\<bar> + \<bar>0\<bar> + 4"
    by simp
  from GetOverlap_noop_when_discarded [OF d1 d2 m h] e
  show ?thesis by simp
qed

section \<open>The separation orchestrator\<close>

text \<open>
  C10. When \<^verbatim>\<open>GetOverlap\<close> returns 0, \<^verbatim>\<open>Separate\<close> hands back the two bodies
  exactly as \<^verbatim>\<open>GetOverlap\<close> left them, with the module state untouched, and returns
  whether \<^verbatim>\<open>GetOverlap\<close> left both of them embedded; no position and no velocity
  differs from the caller's. So it returns true when the equal-displacement branch fired,
  and, when the displacements differ (the overlap was measured as 0 or discarded), it
  returns true only if both bodies were embedded already, false if either was not.
\<close>

theorem Separate_zero_overlap:
  assumes "fst (GetOverlap ax b1 b2 overlapOnly bias) = 0"
  shows "Separate p0 ax b1 b2 overlapOnly bias
           = (Returned (embedded (fst (snd (GetOverlap ax b1 b2 overlapOnly bias)))
                        \<and> embedded (snd (snd (GetOverlap ax b1 b2 overlapOnly bias)))),
              fst (snd (GetOverlap ax b1 b2 overlapOnly bias)),
              snd (snd (GetOverlap ax b1 b2 overlapOnly bias)), p0)
       \<and> position (fst (snd (GetOverlap ax b1 b2 overlapOnly bias))) = position b1
       \<and> velocity (fst (snd (GetOverlap ax b1 b2 overlapOnly bias))) = velocity b1
       \<and> position (snd (snd (GetOverlap ax b1 b2 overlapOnly bias))) = position b2
       \<and> velocity (snd (snd (GetOverlap ax b1 b2 overlapOnly bias))) = velocity b2
       \<and> (get ax (position b1) - get ax (prev b1) = get ax (position b2) - get ax (prev b2)
            \<longrightarrow> fst (Separate p0 ax b1 b2 overlapOnly bias) = Returned True)
       \<and> (get ax (position b1) - get ax (prev b1) \<noteq> get ax (position b2) - get ax (prev b2)
            \<longrightarrow> fst (Separate p0 ax b1 b2 overlapOnly bias) = Returned (embedded b1 \<and> embedded b2))"
proof -
  have early: "overlapOnly \<or> fst (GetOverlap ax b1 b2 overlapOnly bias) = 0
           \<or> (immovable b1 \<and> immovable b2)
           \<or> getCustomSeparate ax b1 \<or> getCustomSeparate ax b2"
    using assms by simp
  have sep: "Separate p0 ax b1 b2 overlapOnly bias
           = (Returned (embedded (fst (snd (GetOverlap ax b1 b2 overlapOnly bias)))
                        \<and> embedded (snd (snd (GetOverlap ax b1 b2 overlapOnly bias)))),
              fst (snd (GetOverlap ax b1 b2 overlapOnly bias)),
              snd (snd (GetOverlap ax b1 b2 overlapOnly bias)), p0)"
    using Separate_early [OF early, of p0] assms by simp
  have eq: "fst (Separate p0 ax b1 b2 overlapOnly bias) = Returned True"
    if "get ax (position b1) - get ax (prev b1) = get ax (position b2) - get ax (prev b2)"
    using sep that by (simp add: GetOverlap_def Let_def)
  have ne: "fst (Separate p0 ax b1 b2 overlapOnly bias) = Returned (embedded b1 \<and> embedded b2)"
    if "get ax (position b1) - get ax (prev b1) \<noteq> get ax (position b2) - get ax (prev b2)"
    using sep GetOverlap_embedded_unequal [OF that, of overlapOnly bias] by simp
  from sep eq ne GetOverlap_frame_fst [of ax b1 b2 overlapOnly bias] show ?thesis
    by simp
qed

theorem Separate_zero_overlap_witness:
  "fst (GetOverlap X (bodyAt 0 0 0) target False 4) = 0
   \<and> fst (Separate idleProc X (bodyAt 0 0 0) target False 4) = Returned True
   \<and> embedded (fst (snd (Separate idleProc X (bodyAt 0 0 0) target False 4)))
   \<and> embedded (fst (snd (snd (Separate idleProc X (bodyAt 0 0 0) target False 4))))
   \<and> position (fst (snd (Separate idleProc X (bodyAt 0 0 0) target False 4)))
       = position (bodyAt 0 0 0)
   \<and> position (fst (snd (snd (Separate idleProc X (bodyAt 0 0 0) target False 4))))
       = position target
   \<and> fst (GetOverlap X (bodyAt 20 19 1) (bodyAt 0 0 0) False 4) = 0
   \<and> fst (Separate idleProc X (bodyAt 20 19 1) (bodyAt 0 0 0) False 4) = Returned False
   \<and> embedded (fst (snd (Separate idleProc X (bodyAt 20 19 1) (bodyAt 0 0 0) False 4))) = False
   \<and> position (fst (snd (Separate idleProc X (bodyAt 20 19 1) (bodyAt 0 0 0) False 4)))
       = position (bodyAt 20 19 1)
   \<and> velocity (fst (snd (Separate idleProc X (bodyAt 20 19 1) (bodyAt 0 0 0) False 4)))
       = velocity (bodyAt 20 19 1)"
proof -
  have z1: "fst (GetOverlap X (bodyAt 0 0 0) target False 4) = 0"
    by (simp add: GetOverlap_def Let_def example_defs)
  have e1: "embedded (fst (snd (GetOverlap X (bodyAt 0 0 0) target False 4)))"
    "embedded (snd (snd (GetOverlap X (bodyAt 0 0 0) target False 4)))"
    by (simp_all add: GetOverlap_def Let_def example_defs)
  have z2: "fst (GetOverlap X (bodyAt 20 19 1) (bodyAt 0 0 0) False 4) = 0"
    by (simp add: GetOverlap_def overlapMinMax_def extents_def Let_def example_defs)
  have e2: "embedded (fst (snd (GetOverlap X (bodyAt 20 19 1) (bodyAt 0 0 0) False 4))) = False"
    by (simp add: GetOverlap_def overlapMinMax_def extents_def Let_def example_defs)
  note t1 = Separate_zero_overlap [OF z1, of idleProc]
  note t2 = Separate_zero_overlap [OF z2, of idleProc]
  from t1 have s1: "Separate idleProc X (bodyAt 0 0 0) target False 4
           = (Returned (embedded (fst (snd (GetOverlap X (bodyAt 0 0 0) target False 4)))
                        \<and> embedded (snd (snd (GetOverlap X (bodyAt 0 0 0) target False 4)))),
              fst (snd (GetOverlap X (bodyAt 0 0 0) target False 4)),
              snd (snd (GetOverlap X (bodyAt 0 0 0) target False 4)), idleProc)"
    by (rule conjunct1)
  from t2 have s2: "Separate idleProc X (bodyAt 20 19 1) (bodyAt 0 0 0) False 4
           = (Returned (embedded (fst (snd (GetOverlap X (bodyAt 20 19 1) (bodyAt 0 0 0) False 4)))
                        \<and> embedded (snd (snd (GetOverlap X (bodyAt 20 19 1) (bodyAt 0 0 0) False 4)))),
              fst (snd (GetOverlap X (bodyAt 20 19 1) (bodyAt 0 0 0) False 4)),
              snd (snd (GetOverlap X (bodyAt 20 19 1) (bodyAt 0 0 0) False 4)), idleProc)"
    by (rule conjunct1)
  from t1 have f1: "position (fst (snd (GetOverlap X (bodyAt 0 0 0) target False 4))) = position (bodyAt 0 0 0)"
    "position (snd (snd (GetOverlap X (bodyAt 0 0 0) target False 4))) = position target"
    by blast+
  from t2 have f2: "position (fst (snd (GetOverlap X (bodyAt 20 19 1) (bodyAt 0 0 0) False 4))) = position (bodyAt 20 19 1)"
    "velocity (fst (snd (GetOverlap X (bodyAt 20 19 1) (bodyAt 0 0 0) False 4))) = velocity (bodyAt 20 19 1)"
    by blast+
  show ?thesis
    unfolding s1 s2 using z1 z2 e1 e2 f1 f2 by simp
qed

text \<open>
  C1, as stated, fails: an immovable body1 that moved right into a body2 already blocked
  on its right side is displaced back by the overlap and has its velocity overwritten by
  \<^verbatim>\<open>BlockCheck\<close>, which does not look at the immovable flag.
\<close>

theorem Separate_immovable_body1_counterexample:
  "immovable (mover\<lparr>immovable := True\<rparr>)
   \<and> position (mover\<lparr>immovable := True\<rparr>) = \<lparr> x = 0, y = 0 \<rparr>
   \<and> velocity (mover\<lparr>immovable := True\<rparr>) = \<lparr> x = 5, y = 0 \<rparr>
   \<and> position (fst (snd (Separate idleProc X (mover\<lparr>immovable := True\<rparr>)
                             ((bodyAt 8 8 0)\<lparr>blocked := rightEdge\<rparr>) False 4)))
       = \<lparr> x = - 2, y = 0 \<rparr>
   \<and> velocity (fst (snd (Separate idleProc X (mover\<lparr>immovable := True\<rparr>)
                             ((bodyAt 8 8 0)\<lparr>blocked := rightEdge\<rparr>) False 4)))
       = \<lparr> x = 0, y = 0 \<rparr>"
  by (simp add: Separate_def GetOverlap_def overlapMinMax_def Set_def Set_assign_def BlockCheck_def
      RunImmovableBody1_def displaceTo_def updateCenter_def inc_def delta_def inOrder_def
      extents_def Let_def example_defs)

text \<open>
  C1, amended. For every call to \<^verbatim>\<open>Separate\<close>, an immovable body1 has the position
  and velocity it came with when the call returns, unless the call reaches
  \<^verbatim>\<open>BlockCheck\<close> (it is not overlap-only, the overlap is not 0, not both bodies are
  immovable, neither has custom separation) and \<^verbatim>\<open>BlockCheck\<close> reports body1 as
  blocked (returns 1). The same holds for an immovable body2, with \<^verbatim>\<open>BlockCheck\<close>
  returning 2. The immovable-body dispatch itself never writes the immovable body:
  \<^verbatim>\<open>RunImmovableBody1\<close> leaves body1 as it is and \<^verbatim>\<open>RunImmovableBody2\<close> leaves
  body2 as it is, for every blocked state.
\<close>

theorem Separate_immovable_unchanged:
  "(immovable b1
      \<and> (overlapOnly \<or> fst (GetOverlap ax b1 b2 overlapOnly bias) = 0
          \<or> (immovable b1 \<and> immovable b2)
          \<or> getCustomSeparate ax b1 \<or> getCustomSeparate ax b2
          \<or> fst (BlockCheck (resolutionState p0 ax b1 b2 overlapOnly bias)) \<noteq> 1)
    \<longrightarrow> position (fst (snd (Separate p0 ax b1 b2 overlapOnly bias))) = position b1
        \<and> velocity (fst (snd (Separate p0 ax b1 b2 overlapOnly bias))) = velocity b1)
   \<and> (immovable b2
      \<and> (overlapOnly \<or> fst (GetOverlap ax b1 b2 overlapOnly bias) = 0
          \<or> (immovable b1 \<and> immovable b2)
          \<or> getCustomSeparate ax b1 \<or> getCustomSeparate ax b2
          \<or> fst (BlockCheck (resolutionState p0 ax b1 b2 overlapOnly bias)) \<noteq> 2)
    \<longrightarrow> position (fst (snd (snd (Separate p0 ax b1 b2 overlapOnly bias)))) = position b2
        \<and> velocity (fst (snd (snd (Separate p0 ax b1 b2 overlapOnly bias)))) = velocity b2)
   \<and> body1 (RunImmovableBody1 blockedState p) = body1 p
   \<and> body2 (RunImmovableBody2 blockedState p) = body2 p"
proof -
  let ?early = "overlapOnly \<or> fst (GetOverlap ax b1 b2 overlapOnly bias) = 0
          \<or> (immovable b1 \<and> immovable b2)
          \<or> getCustomSeparate ax b1 \<or> getCustomSeparate ax b2"
  note frame = GetOverlap_frame_fst [of ax b1 b2 overlapOnly bias]
  have one: "position (fst (snd (Separate p0 ax b1 b2 overlapOnly bias))) = position b1
        \<and> velocity (fst (snd (Separate p0 ax b1 b2 overlapOnly bias))) = velocity b1"
    if "immovable b1"
      and "?early \<or> fst (BlockCheck (resolutionState p0 ax b1 b2 overlapOnly bias)) \<noteq> 1"
  proof (cases ?early)
    case True
    from Separate_early [OF True, of p0] frame show ?thesis by simp
  next
    case False
    with that(2) have "fst (BlockCheck (resolutionState p0 ax b1 b2 overlapOnly bias)) \<noteq> 1"
      by blast
    from Separate_late_body1 [OF that(1) False this] frame show ?thesis by simp
  qed
  have two: "position (fst (snd (snd (Separate p0 ax b1 b2 overlapOnly bias)))) = position b2
        \<and> velocity (fst (snd (snd (Separate p0 ax b1 b2 overlapOnly bias)))) = velocity b2"
    if "immovable b2"
      and "?early \<or> fst (BlockCheck (resolutionState p0 ax b1 b2 overlapOnly bias)) \<noteq> 2"
  proof (cases ?early)
    case True
    from Separate_early [OF True, of p0] frame show ?thesis by simp
  next
    case False
    with that(2) have "fst (BlockCheck (resolutionState p0 ax b1 b2 overlapOnly bias)) \<noteq> 2"
      by blast
    from Separate_late_body2 [OF that(1) False this] frame show ?thesis by simp
  qed
  have three: "body1 (RunImmovableBody1 blockedState p) = body1 p"
    by (rule RunImmovableBody1_body1)
  have four: "body2 (RunImmovableBody2 blockedState p) = body2 p"
    by (rule RunImmovableBody2_body2)
  from one two three four show ?thesis
    by blast
qed

theorem Separate_immovable_unchanged_witness:
  "fst (BlockCheck (resolutionState idleProc X ((bodyAt 0 0 0)\<lparr>immovable := True\<rparr>)
                      (bodyAt 8 13 (-5)) False 4)) = 0
   \<and> position (fst (snd (Separate idleProc X ((bodyAt 0 0 0)\<lparr>immovable := True\<rparr>)
                             (bodyAt 8 13 (-5)) False 4)))
       = position ((bodyAt 0 0 0)\<lparr>immovable := True\<rparr>)
   \<and> velocity (fst (snd (Separate idleProc X ((bodyAt 0 0 0)\<lparr>immovable := True\<rparr>)
                             (bodyAt 8 13 (-5)) False 4)))
       = velocity ((bodyAt 0 0 0)\<lparr>immovable := True\<rparr>)
   \<and> position (fst (snd (snd (Separate idleProc X ((bodyAt 0 0 0)\<lparr>immovable := True\<rparr>)
                             (bodyAt 8 13 (-5)) False 4))))
       = \<lparr> x = 10, y = 0 \<rparr>
   \<and> fst (BlockCheck (resolutionState idleProc X mover (target\<lparr>immovable := True\<rparr>) False 4)) = 0
   \<and> position (fst (snd (snd (Separate idleProc X mover (target\<lparr>immovable := True\<rparr>) False 4))))
       = position (target\<lparr>immovable := True\<rparr>)
   \<and> velocity (fst (snd (snd (Separate idleProc X mover (target\<lparr>immovable := True\<rparr>) False 4))))
       = velocity (target\<lparr>immovable := True\<rparr>)
   \<and> position (fst (snd (Separate idleProc X mover (target\<lparr>immovable := True\<rparr>) False 4)))
       = \<lparr> x = - 4, y = 0 \<rparr>
   \<and> fst (BlockCheck (resolutionState idleProc X (mover\<lparr>immovable := True\<rparr>)
                      ((bodyAt 8 8 0)\<lparr>blocked := rightEdge, immovable := True\<rparr>) False 4)) = 1
   \<and> position (fst (snd (Separate idleProc X (mover\<lparr>immovable := True\<rparr>)
                             ((bodyAt 8 8 0)\<lparr>blocked := rightEdge, immovable := True\<rparr>) False 4)))
       = position (mover\<lparr>immovable := True\<rparr>)
   \<and> velocity (fst (snd (Separate idleProc X (mover\<lparr>immovable := True\<rparr>)
                             ((bodyAt 8 8 0)\<lparr>blocked := rightEdge, immovable := True\<rparr>) False 4)))
       = velocity (mover\<lparr>immovable := True\<rparr>)"
proof -
  let ?a1 = "(bodyAt 0 0 0)\<lparr>immovable := True\<rparr>"
  let ?a2 = "bodyAt 8 13 (-5)"
  let ?b2 = "target\<lparr>immovable := True\<rparr>"
  let ?c1 = "mover\<lparr>immovable := True\<rparr>"
  let ?c2 = "(bodyAt 8 8 0)\<lparr>blocked := rightEdge, immovable := True\<rparr>"
  have imm: "immovable ?a1" "immovable ?b2" "immovable ?c1" "immovable ?c2"
    by simp_all
  have ba: "fst (BlockCheck (resolutionState idleProc X ?a1 ?a2 False 4)) = 0"
    by (simp add: resolutionState_def GetOverlap_def overlapMinMax_def Set_assign_def BlockCheck_def
        delta_def inOrder_def extents_def Let_def example_defs)
  then have na: "fst (BlockCheck (resolutionState idleProc X ?a1 ?a2 False 4)) \<noteq> 1"
    by simp
  have ma: "position (fst (snd (snd (Separate idleProc X ?a1 ?a2 False 4)))) = \<lparr> x = 10, y = 0 \<rparr>"
    by (simp add: Separate_def GetOverlap_def overlapMinMax_def Set_def Set_assign_def BlockCheck_def
      RunImmovableBody1_def displaceTo_def updateCenter_def inc_def delta_def inOrder_def
      extents_def Let_def example_defs)
  have bb: "fst (BlockCheck (resolutionState idleProc X mover ?b2 False 4)) = 0"
    by (simp add: resolutionState_def GetOverlap_def overlapMinMax_def Set_assign_def BlockCheck_def
        delta_def inOrder_def extents_def Let_def example_defs)
  then have nb: "fst (BlockCheck (resolutionState idleProc X mover ?b2 False 4)) \<noteq> 2"
    by simp
  have mb: "position (fst (snd (Separate idleProc X mover ?b2 False 4))) = \<lparr> x = - 4, y = 0 \<rparr>"
    by (simp add: Separate_def GetOverlap_def overlapMinMax_def Set_def Set_assign_def BlockCheck_def
      RunImmovableBody2_def displaceTo_def updateCenter_def inc_def delta_def inOrder_def
      extents_def Let_def example_defs)
  have bc: "fst (BlockCheck (resolutionState idleProc X ?c1 ?c2 False 4)) = 1"
    by (simp add: resolutionState_def GetOverlap_def overlapMinMax_def Set_assign_def BlockCheck_def
        delta_def inOrder_def extents_def Let_def example_defs)
  from Separate_immovable_unchanged [where ?b1.0 = ?a1 and ?b2.0 = ?a2 and ax = X
      and overlapOnly = False and bias = 4 and ?p0.0 = idleProc] imm(1) na
  have ra: "position (fst (snd (Separate idleProc X ?a1 ?a2 False 4))) = position ?a1
          \<and> velocity (fst (snd (Separate idleProc X ?a1 ?a2 False 4))) = velocity ?a1"
    by blast
  from Separate_immovable_unchanged [where ?b1.0 = mover and ?b2.0 = ?b2 and ax = X
      and overlapOnly = False and bias = 4 and ?p0.0 = idleProc] imm(2) nb
  have rb: "position (fst (snd (snd (Separate idleProc X mover ?b2 False 4)))) = position ?b2
          \<and> velocity (fst (snd (snd (Separate idleProc X mover ?b2 False 4)))) = velocity ?b2"
    by blast
  from Separate_immovable_unchanged [where ?b1.0 = ?c1 and ?b2.0 = ?c2 and ax = X
      and overlapOnly = False and bias = 4 and ?p0.0 = idleProc] imm(3) imm(4)
  have rc: "position (fst (snd (Separate idleProc X ?c1 ?c2 False 4))) = position ?c1
          \<and> velocity (fst (snd (Separate idleProc X ?c1 ?c2 False 4))) = velocity ?c1"
    by blast
  from ba ma bb mb bc ra rb rc show ?thesis
    by blast
qed

section \<open>The axis projector\<close>

text \<open>
  C5 says that on the X axis \<^verbatim>\<open>setEdges\<close> sets the \<^verbatim>\<open>left\<close> and \<^verbatim>\<open>right\<close>
  flags. The code does not: \<^verbatim>\<open>Axis.X.setEdges\<close> has the same body as
  \<^verbatim>\<open>Axis.Y.setEdges\<close>, so it never changes \<^verbatim>\<open>left\<close> or \<^verbatim>\<open>right\<close> and
  sets \<^verbatim>\<open>up\<close> for a truthy lower argument and \<^verbatim>\<open>down\<close> for a truthy upper
  argument. An overlap accepted on the X axis therefore marks the touching and blocked
  structs on their \<^verbatim>\<open>up\<close>/\<^verbatim>\<open>down\<close> fields.
\<close>

theorem setEdges_X_fields:
  "left (setEdges X v l r) = left v \<and> right (setEdges X v l r) = right v
   \<and> up (setEdges X v l r) = (l \<or> up v) \<and> down (setEdges X v l r) = (r \<or> down v)"
  by (simp add: Let_def)

theorem setEdges_X_fields_witness:
  "touching (fst (snd (GetOverlap X mover (target\<lparr>physicsType := STATIC_BODY\<rparr>) False 4)))
     = \<lparr> up = False, right = False, down = True, left = False, none = False \<rparr>
   \<and> touching (snd (snd (GetOverlap X mover (target\<lparr>physicsType := STATIC_BODY\<rparr>) False 4)))
     = \<lparr> up = True, right = False, down = False, left = False, none = False \<rparr>
   \<and> blocked (fst (snd (GetOverlap X mover (target\<lparr>physicsType := STATIC_BODY\<rparr>) False 4)))
     = \<lparr> up = False, right = False, down = True, left = False, none = False \<rparr>
   \<and> fst (GetOverlap X mover (target\<lparr>physicsType := STATIC_BODY\<rparr>) False 4) = 4
   \<and> right (setEdges X noEdges False True) = False
   \<and> down (setEdges X noEdges False True) = True"
proof -
  have g: "touching (fst (snd (GetOverlap X mover (target\<lparr>physicsType := STATIC_BODY\<rparr>) False 4)))
     = \<lparr> up = False, right = False, down = True, left = False, none = False \<rparr>
   \<and> touching (snd (snd (GetOverlap X mover (target\<lparr>physicsType := STATIC_BODY\<rparr>) False 4)))
     = \<lparr> up = True, right = False, down = False, left = False, none = False \<rparr>
   \<and> blocked (fst (snd (GetOverlap X mover (target\<lparr>physicsType := STATIC_BODY\<rparr>) False 4)))
     = \<lparr> up = False, right = False, down = True, left = False, none = False \<rparr>
   \<and> fst (GetOverlap X mover (target\<lparr>physicsType := STATIC_BODY\<rparr>) False 4) = 4"
    by (simp add: GetOverlap_def overlapMinMax_def extents_def Let_def example_defs)
  have n: "right noEdges = False" "down noEdges = False"
    by (simp_all add: noEdges_def)
  from setEdges_X_fields [of noEdges False True] g n show ?thesis
    by simp
qed

section \<open>The collision resolution process\<close>

text \<open>
  C4 says that \<^verbatim>\<open>BlockCheck\<close> displaces body2 and returns 2 when body2 moves toward
  the upper side, is the lower-side body, and body1 is blocked on its upper edge. The
  code does not: its third test reads the upper edge of the boolean
  \<^verbatim>\<open>body1.blocked.right\<close>, which is never truthy. In that situation, unless body1 is
  itself vetoed by the second test, \<^verbatim>\<open>BlockCheck\<close> returns 0 and changes nothing.
\<close>

theorem BlockCheck_body2_moving_upper_not_vetoed:
  assumes "body2MovingRight p" and "body2OnLeft p" and "\<not> body1OnLeft p"
    and "rd (axis p) (blocked (body1 p))"
    and "\<not> (body1MovingLeft p \<and> lu (axis p) (blocked (body2 p)))"
  shows "BlockCheck p = (0, p)"
  using assms by (cases "axis p") (auto simp add: BlockCheck_def)

theorem BlockCheck_body2_moving_upper_not_vetoed_witness:
  "body2MovingRight (resolutionState idleProc X (target\<lparr>blocked := rightEdge\<rparr>) mover False 4)
   \<and> body2OnLeft (resolutionState idleProc X (target\<lparr>blocked := rightEdge\<rparr>) mover False 4)
   \<and> rd X (blocked (body1 (resolutionState idleProc X (target\<lparr>blocked := rightEdge\<rparr>) mover False 4)))
   \<and> overlap (resolutionState idleProc X (target\<lparr>blocked := rightEdge\<rparr>) mover False 4) = 4
   \<and> BlockCheck (resolutionState idleProc X (target\<lparr>blocked := rightEdge\<rparr>) mover False 4)
       = (0, resolutionState idleProc X (target\<lparr>blocked := rightEdge\<rparr>) mover False 4)"
proof -
  let ?st = "resolutionState idleProc X (target\<lparr>blocked := rightEdge\<rparr>) mover False 4"
  have st: "body2MovingRight ?st" "body2OnLeft ?st" "\<not> body1OnLeft ?st"
    "rd (axis ?st) (blocked (body1 ?st))"
    "\<not> (body1MovingLeft ?st \<and> lu (axis ?st) (blocked (body2 ?st)))"
    "overlap ?st = 4" "axis ?st = X"
    by (simp_all add: resolutionState_def GetOverlap_def overlapMinMax_def
        Set_assign_def delta_def inOrder_def extents_def Let_def example_defs)
  from BlockCheck_body2_moving_upper_not_vetoed [OF st(1-5)] st show ?thesis
    by simp
qed

text \<open>
  C2 says that with both bodies pushable body2 is displaced by
  overlap * body1.mass / (body1.mass + body2.mass). The code does not: \<^verbatim>\<open>Run\<close>
  displaces both bodies by overlap * body2.mass / (body1.mass + body2.mass), in opposite
  directions (toward the upper side for body1 on sides 0 and 3, toward the lower side on
  sides 1 and 2); the share it computes for body2 is never used.
\<close>

theorem Run_both_pushable:
  assumes "body1Pushable p" and "body2Pushable p" and "side \<le> 3"
  shows "position (body1 (snd (Run side p)))
           = inc (axis p) (position (body1 p))
               ((if side = 0 \<or> side = 3 then 1 else - 1)
                 * (overlap p * (mass (body2 p) / (mass (body1 p) + mass (body2 p)))))
       \<and> position (body2 (snd (Run side p)))
           = inc (axis p) (position (body2 p))
               ((if side = 0 \<or> side = 3 then - 1 else 1)
                 * (overlap p * (mass (body2 p) / (mass (body1 p) + mass (body2 p)))))"
  using assms(1,2) side_cases [OF assms(3)]
  by (auto simp add: Run_def gather_def Let_def displaceTo_position)

theorem Run_both_pushable_witness:
  "body1Pushable (Check_assign (resolutionState idleProc X mover (target\<lparr>mass := 3\<rparr>) False 4))
   \<and> body2Pushable (Check_assign (resolutionState idleProc X mover (target\<lparr>mass := 3\<rparr>) False 4))
   \<and> mass (body1 (Check_assign (resolutionState idleProc X mover (target\<lparr>mass := 3\<rparr>) False 4))) = 1
   \<and> mass (body2 (Check_assign (resolutionState idleProc X mover (target\<lparr>mass := 3\<rparr>) False 4))) = 3
   \<and> overlap (Check_assign (resolutionState idleProc X mover (target\<lparr>mass := 3\<rparr>) False 4)) = 4
   \<and> position (body2 (Check_assign (resolutionState idleProc X mover (target\<lparr>mass := 3\<rparr>) False 4)))
       = \<lparr> x = 6, y = 0 \<rparr>
   \<and> position (body2 (snd (Run 2 (Check_assign
          (resolutionState idleProc X mover (target\<lparr>mass := 3\<rparr>) False 4)))))
       = \<lparr> x = 9, y = 0 \<rparr>
   \<and> Separate idleProc X mover (target\<lparr>mass := 3\<rparr>) False 4
       = (case Run 2 (Check_assign (resolutionState idleProc X mover (target\<lparr>mass := 3\<rparr>) False 4)) of
            (r, p') \<Rightarrow> (r, body1 p', body2 p', p'))"
proof -
  let ?st = "Check_assign (resolutionState idleProc X mover (target\<lparr>mass := 3\<rparr>) False 4)"
  have st: "body1Pushable ?st" "body2Pushable ?st" "mass (body1 ?st) = 1" "mass (body2 ?st) = 3"
    "overlap ?st = 4" "position (body2 ?st) = \<lparr> x = 6, y = 0 \<rparr>" "axis ?st = X"
    by (simp_all add: Check_assign_def resolutionState_def GetOverlap_def overlapMinMax_def
        Set_assign_def delta_def inOrder_def extents_def Let_def example_defs)
  have sep: "Separate idleProc X mover (target\<lparr>mass := 3\<rparr>) False 4
       = (case Run 2 ?st of (r, p') \<Rightarrow> (r, body1 p', body2 p', p'))"
    by (simp add: Separate_def Set_def BlockCheck_def Check_def Check_assign_def resolutionState_def
        GetOverlap_def overlapMinMax_def
        Set_assign_def delta_def inOrder_def extents_def Let_def example_defs)
  from Run_both_pushable [OF st(1) st(2), of 2] st sep show ?thesis
    by (simp add: inc_def)
qed

text \<open>
  C3 says that with exactly one body pushable the other body is left untouched. The code
  does not: when only body1 is pushable, \<^verbatim>\<open>Run\<close> displaces body1 by the whole overlap
  and sets its velocity to its full-impact velocity, keeps the velocity of body2, but
  displaces body2 by the whole overlap as well, in the opposite direction.
\<close>

theorem Run_only_body1_pushable:
  assumes "body1Pushable p" and "\<not> body2Pushable p" and "side \<le> 3"
  shows "position (body1 (snd (Run side p)))
           = inc (axis p) (position (body1 p)) ((if side = 0 \<or> side = 3 then 1 else - 1) * overlap p)
       \<and> velocity (body1 (snd (Run side p)))
           = set_axis (axis p) (velocity (body1 p)) (body1FullImpact p)
       \<and> position (body2 (snd (Run side p)))
           = inc (axis p) (position (body2 p)) ((if side = 0 \<or> side = 3 then - 1 else 1) * overlap p)
       \<and> velocity (body2 (snd (Run side p))) = velocity (body2 p)"
  using assms(1,2) side_cases [OF assms(3)]
  by (auto simp add: Run_def gather_def Let_def displaceTo_position displaceTo_velocity_Some
      displaceTo_velocity_None)

theorem Run_only_body1_pushable_witness:
  "body1Pushable (Check_assign (resolutionState idleProc X mover (target\<lparr>pushable := False\<rparr>) False 4))
   \<and> \<not> body2Pushable (Check_assign (resolutionState idleProc X mover (target\<lparr>pushable := False\<rparr>) False 4))
   \<and> overlap (Check_assign (resolutionState idleProc X mover (target\<lparr>pushable := False\<rparr>) False 4)) = 4
   \<and> position (body2 (Check_assign (resolutionState idleProc X mover (target\<lparr>pushable := False\<rparr>) False 4)))
       = \<lparr> x = 6, y = 0 \<rparr>
   \<and> position (body2 (snd (Run 2 (Check_assign
          (resolutionState idleProc X mover (target\<lparr>pushable := False\<rparr>) False 4)))))
       = \<lparr> x = 10, y = 0 \<rparr>
   \<and> Separate idleProc X mover (target\<lparr>pushable := False\<rparr>) False 4
       = (case Run 2 (Check_assign (resolutionState idleProc X mover (target\<lparr>pushable := False\<rparr>) False 4)) of
            (r, p') \<Rightarrow> (r, body1 p', body2 p', p'))"
proof -
  let ?st = "Check_assign (resolutionState idleProc X mover (target\<lparr>pushable := False\<rparr>) False 4)"
  have st: "body1Pushable ?st" "\<not> body2Pushable ?st"
    "overlap ?st = 4" "position (body2 ?st) = \<lparr> x = 6, y = 0 \<rparr>" "axis ?st = X"
    by (simp_all add: Check_assign_def resolutionState_def GetOverlap_def overlapMinMax_def
        Set_assign_def delta_def inOrder_def extents_def Let_def example_defs)
  have sep: "Separate idleProc X mover (target\<lparr>pushable := False\<rparr>) False 4
       = (case Run 2 ?st of (r, p') \<Rightarrow> (r, body1 p', body2 p', p'))"
    by (simp add: Separate_def Set_def BlockCheck_def Check_def Check_assign_def resolutionState_def
        GetOverlap_def overlapMinMax_def
        Set_assign_def delta_def inOrder_def extents_def Let_def example_defs)
  from Run_only_body1_pushable [OF st(1) st(2), of 2] st sep show ?thesis
    by (simp add: inc_def)
qed

text \<open>
  C7 says that \<^verbatim>\<open>RunImmovableBody2\<close> zeroes the velocity of body1 when the blocked
  state is 2. The code does not: that branch only reads the velocity, so the velocity of
  body1 is what it was, and so is its position on the axis of separation.
\<close>

theorem RunImmovableBody2_blocked_keeps_velocity:
  "velocity (body1 (RunImmovableBody2 2 p)) = velocity (body1 p)
   \<and> get (axis p) (position (body1 (RunImmovableBody2 2 p))) = get (axis p) (position (body1 p))"
  by (simp add: RunImmovableBody2_def Let_def get_set_other_axis)


theorem RunImmovableBody2_blocked_keeps_velocity_witness:
  "fst (BlockCheck (resolutionState idleProc X ((bodyAt 0 0 (-3))\<lparr>blocked := leftEdge\<rparr>)
                      ((bodyAt 8 13 (-5))\<lparr>immovable := True\<rparr>) False 4)) = 2
   \<and> Separate idleProc X ((bodyAt 0 0 (-3))\<lparr>blocked := leftEdge\<rparr>)
                      ((bodyAt 8 13 (-5))\<lparr>immovable := True\<rparr>) False 4
       = (let p' = RunImmovableBody2 2
                     (snd (BlockCheck (resolutionState idleProc X ((bodyAt 0 0 (-3))\<lparr>blocked := leftEdge\<rparr>)
                             ((bodyAt 8 13 (-5))\<lparr>immovable := True\<rparr>) False 4)))
          in (Returned True, body1 p', body2 p', p'))
   \<and> velocity (body1 (RunImmovableBody2 2
                     (snd (BlockCheck (resolutionState idleProc X ((bodyAt 0 0 (-3))\<lparr>blocked := leftEdge\<rparr>)
                             ((bodyAt 8 13 (-5))\<lparr>immovable := True\<rparr>) False 4)))))
       = \<lparr> x = - 3, y = 0 \<rparr>"
proof -
  let ?st = "resolutionState idleProc X ((bodyAt 0 0 (-3))\<lparr>blocked := leftEdge\<rparr>)
                             ((bodyAt 8 13 (-5))\<lparr>immovable := True\<rparr>) False 4"
  have b: "fst (BlockCheck ?st) = 2"
    by (simp add: resolutionState_def GetOverlap_def overlapMinMax_def BlockCheck_def
        Set_assign_def delta_def inOrder_def extents_def Let_def example_defs)
  have v: "velocity (body1 (snd (BlockCheck ?st))) = \<lparr> x = - 3, y = 0 \<rparr>"
    by (simp add: resolutionState_def GetOverlap_def overlapMinMax_def BlockCheck_def
        Set_assign_def delta_def inOrder_def extents_def Let_def example_defs)
  have sep: "Separate idleProc X ((bodyAt 0 0 (-3))\<lparr>blocked := leftEdge\<rparr>)
                      ((bodyAt 8 13 (-5))\<lparr>immovable := True\<rparr>) False 4
       = (let p' = RunImmovableBody2 2 (snd (BlockCheck ?st))
          in (Returned True, body1 p', body2 p', p'))"
    by (simp add: Separate_def Set_def resolutionState_def GetOverlap_def overlapMinMax_def BlockCheck_def
        Set_assign_def delta_def inOrder_def extents_def displaceTo_def updateCenter_def inc_def
        Let_def example_defs)
  from RunImmovableBody2_blocked_keeps_velocity [of "snd (BlockCheck ?st)"] b v sep
  show ?thesis by simp
qed

end
